theory Spec2Isabelle
  imports Complex_Main
begin

section \<open>The value universe: JSON documents\<close>

text \<open>
  \<^verbatim>\<open>src/index.ts\<close> declares types only: every construct is an interface or a type alias
  describing a JSON payload of the Perspective API. A TypeScript type is embedded as the
  set of JSON values that inhabit it, written as a bool-valued function on the values.

  A JSON number literal denotes a rational; an object is its list of properties, in the
  order written, and is well formed when no key occurs twice.
\<close>

datatype json =
    JNull
  | JBool bool
  | JNumber rat
  | JString string
  | JArray "json list"
  | JObject "(string \<times> json) list"

text \<open>Property access \<^verbatim>\<open>v[k]\<close>: \<open>None\<close> when \<open>v\<close> has no own property \<open>k\<close>.\<close>

definition get_prop :: "string \<Rightarrow> json \<Rightarrow> json option" where
  "get_prop k v = (case v of JObject kvs \<Rightarrow> map_of kvs k | _ \<Rightarrow> None)"

section \<open>The type formers the declarations use\<close>

text \<open>\<^verbatim>\<open>string\<close>, \<^verbatim>\<open>number\<close>, \<^verbatim>\<open>boolean\<close> (under strict null checks: \<open>JNull\<close> is in none).\<close>

definition ts_string :: "json \<Rightarrow> bool" where
  "ts_string v = (case v of JString s \<Rightarrow> True | _ \<Rightarrow> False)"

definition ts_number :: "json \<Rightarrow> bool" where
  "ts_number v = (case v of JNumber n \<Rightarrow> True | _ \<Rightarrow> False)"

definition ts_boolean :: "json \<Rightarrow> bool" where
  "ts_boolean v = (case v of JBool b \<Rightarrow> True | _ \<Rightarrow> False)"

text \<open>\<^verbatim>\<open>T[]\<close>: an array all of whose elements are of type \<open>T\<close>.\<close>

definition ts_array :: "(json \<Rightarrow> bool) \<Rightarrow> json \<Rightarrow> bool" where
  "ts_array T v = (case v of JArray xs \<Rightarrow> list_all T xs | _ \<Rightarrow> False)"

text \<open>An object type: the value is an object (with no key twice).\<close>

definition ts_object :: "json \<Rightarrow> bool" where
  "ts_object v = (case v of JObject kvs \<Rightarrow> distinct (map fst kvs) | _ \<Rightarrow> False)"

text \<open>\<^verbatim>\<open>{ [name: string]: T }\<close>: an object every property of which has a value of type \<open>T\<close>.\<close>

definition ts_index :: "(json \<Rightarrow> bool) \<Rightarrow> json \<Rightarrow> bool" where
  "ts_index T v =
     (case v of JObject kvs \<Rightarrow> distinct (map fst kvs) \<and> list_all T (map snd kvs)
      | _ \<Rightarrow> False)"

text \<open>
  A member \<^verbatim>\<open>k: T\<close> of an interface is required: the property is there and of type
  \<open>T\<close>. A member \<^verbatim>\<open>k?: T\<close> is optional: the property is absent, or there and of type
  \<open>T\<close>. Interfaces are structural: they say nothing about properties they do not name.
\<close>

definition required :: "string \<Rightarrow> (json \<Rightarrow> bool) \<Rightarrow> json \<Rightarrow> bool" where
  "required k T v = (case get_prop k v of Some x \<Rightarrow> T x | None \<Rightarrow> False)"

definition optional :: "string \<Rightarrow> (json \<Rightarrow> bool) \<Rightarrow> json \<Rightarrow> bool" where
  "optional k T v = (case get_prop k v of Some x \<Rightarrow> T x | None \<Rightarrow> True)"

section \<open>The declarations of \<^verbatim>\<open>src/index.ts\<close>, in its order\<close>

text \<open>\<^verbatim>\<open>export type TextType = 'PLAIN_TEXT' | 'HTML';\<close>\<close>

definition TextType :: "json \<Rightarrow> bool" where
  "TextType v = (v = JString ''PLAIN_TEXT'' \<or> v = JString ''HTML'')"

text \<open>\<^verbatim>\<open>export interface Comment { text: string; type?: TextType; }\<close>\<close>

definition Comment :: "json \<Rightarrow> bool" where
  "Comment v =
     (ts_object v \<and>
      required ''text'' ts_string v \<and>
      optional ''type'' TextType v)"

text \<open>\<^verbatim>\<open>export interface ContextEntry { text?: string; type?: TextType; }\<close>\<close>

definition ContextEntry :: "json \<Rightarrow> bool" where
  "ContextEntry v =
     (ts_object v \<and>
      optional ''text'' ts_string v \<and>
      optional ''type'' TextType v)"

text \<open>\<^verbatim>\<open>export interface Context { entries?: ContextEntry[]; }\<close>\<close>

definition Context :: "json \<Rightarrow> bool" where
  "Context v =
     (ts_object v \<and>
      optional ''entries'' (ts_array ContextEntry) v)"

text \<open>\<^verbatim>\<open>export type ScoreType = 'PROBABILITY' | string;\<close>\<close>

definition ScoreType :: "json \<Rightarrow> bool" where
  "ScoreType v = (v = JString ''PROBABILITY'' \<or> ts_string v)"

text \<open>
  \<^verbatim>\<open>export interface RequestedAttributeConfig { scoreType?: ScoreType; scoreThreshold?: number; }\<close>
\<close>

definition RequestedAttributeConfig :: "json \<Rightarrow> bool" where
  "RequestedAttributeConfig v =
     (ts_object v \<and>
      optional ''scoreType'' ScoreType v \<and>
      optional ''scoreThreshold'' ts_number v)"

text \<open>
  \<^verbatim>\<open>export interface AnalyzeCommentRequest {
    comment: Comment;
    context?: Context;
    requestedAttributes: { [attributeName: string]: RequestedAttributeConfig };
    languages?: string[];
    doNotStore?: boolean;
    clientToken?: string;
    sessionId?: string;
    communityId?: string;
    spanAnnotations?: boolean;
  }\<close>
\<close>

definition AnalyzeCommentRequest :: "json \<Rightarrow> bool" where
  "AnalyzeCommentRequest v =
     (ts_object v \<and>
      required ''comment'' Comment v \<and>
      optional ''context'' Context v \<and>
      required ''requestedAttributes'' (ts_index RequestedAttributeConfig) v \<and>
      optional ''languages'' (ts_array ts_string) v \<and>
      optional ''doNotStore'' ts_boolean v \<and>
      optional ''clientToken'' ts_string v \<and>
      optional ''sessionId'' ts_string v \<and>
      optional ''communityId'' ts_string v \<and>
      optional ''spanAnnotations'' ts_boolean v)"

text \<open>\<^verbatim>\<open>export interface Score { value: number; type?: ScoreType; }\<close>\<close>

definition Score :: "json \<Rightarrow> bool" where
  "Score v =
     (ts_object v \<and>
      required ''value'' ts_number v \<and>
      optional ''type'' ScoreType v)"

text \<open>\<^verbatim>\<open>export interface SpanScore { begin: number; end: number; score: Score; }\<close>\<close>

definition SpanScore :: "json \<Rightarrow> bool" where
  "SpanScore v =
     (ts_object v \<and>
      required ''begin'' ts_number v \<and>
      required ''end'' ts_number v \<and>
      required ''score'' Score v)"

text \<open>
  \<^verbatim>\<open>export interface AttributeScore { summaryScore?: Score; spanScores?: SpanScore[]; }\<close>
\<close>

definition AttributeScore :: "json \<Rightarrow> bool" where
  "AttributeScore v =
     (ts_object v \<and>
      optional ''summaryScore'' Score v \<and>
      optional ''spanScores'' (ts_array SpanScore) v)"

text \<open>
  \<^verbatim>\<open>export interface AnalyzeCommentResponse {
    attributeScores?: { [attributeName: string]: AttributeScore };
    languages?: string[];
    clientToken?: string;
  }\<close>
\<close>

definition AnalyzeCommentResponse :: "json \<Rightarrow> bool" where
  "AnalyzeCommentResponse v =
     (ts_object v \<and>
      optional ''attributeScores'' (ts_index AttributeScore) v \<and>
      optional ''languages'' (ts_array ts_string) v \<and>
      optional ''clientToken'' ts_string v)"

text \<open>
  \<^verbatim>\<open>export interface SuggestCommentScoreRequest {
    comment: Comment;
    context?: Context;
    attributeScores: { [attributeName: string]: AttributeScore };
    languages?: string[];
    communityId?: string;
    clientToken?: string;
  }\<close>
\<close>

definition SuggestCommentScoreRequest :: "json \<Rightarrow> bool" where
  "SuggestCommentScoreRequest v =
     (ts_object v \<and>
      required ''comment'' Comment v \<and>
      optional ''context'' Context v \<and>
      required ''attributeScores'' (ts_index AttributeScore) v \<and>
      optional ''languages'' (ts_array ts_string) v \<and>
      optional ''communityId'' ts_string v \<and>
      optional ''clientToken'' ts_string v)"

text \<open>\<^verbatim>\<open>export interface SuggestCommentScoreResponse { clientToken?: string; }\<close>\<close>

definition SuggestCommentScoreResponse :: "json \<Rightarrow> bool" where
  "SuggestCommentScoreResponse v =
     (ts_object v \<and>
      optional ''clientToken'' ts_string v)"

text \<open>
  \<^verbatim>\<open>export type PerspectiveRequest = AnalyzeCommentRequest | SuggestCommentScoreRequest;\<close>
  \<^verbatim>\<open>export type PerspectiveResponse = AnalyzeCommentResponse | SuggestCommentScoreResponse;\<close>
\<close>

definition PerspectiveRequest :: "json \<Rightarrow> bool" where
  "PerspectiveRequest v = (AnalyzeCommentRequest v \<or> SuggestCommentScoreRequest v)"

definition PerspectiveResponse :: "json \<Rightarrow> bool" where
  "PerspectiveResponse v = (AnalyzeCommentResponse v \<or> SuggestCommentScoreResponse v)"

section \<open>Example values\<close>

text \<open>
  The request \<^verbatim>\<open>{comment: {text: "hello"}, requestedAttributes: {"TOXICITY": {}}}\<close> of
  the specification's first scenario, extended so that every member of the shape is
  present.
\<close>

definition full_request :: json where
  "full_request = JObject
     [(''comment'', JObject [(''text'', JString ''hello''), (''type'', JString ''PLAIN_TEXT'')]),
      (''context'', JObject [(''entries'', JArray [JObject [(''text'', JString ''earlier'')]])]),
      (''requestedAttributes'', JObject [(''TOXICITY'', JObject [])]),
      (''languages'', JArray [JString ''en'', JString ''es'']),
      (''doNotStore'', JBool True),
      (''clientToken'', JString ''t1''),
      (''sessionId'', JString ''s1''),
      (''communityId'', JString ''c1''),
      (''spanAnnotations'', JBool False)]"

section \<open>Reading the type formers\<close>

lemma ts_string_iff: "ts_string v = (\<exists>s. v = JString s)"
  by (cases v) (simp_all add: ts_string_def)

lemma ts_number_iff: "ts_number v = (\<exists>n. v = JNumber n)"
  by (cases v) (simp_all add: ts_number_def)

lemma ts_boolean_iff: "ts_boolean v = (\<exists>b. v = JBool b)"
  by (cases v) (simp_all add: ts_boolean_def)

lemma required_iff: "required k T v = (\<exists>x. get_prop k v = Some x \<and> T x)"
  by (simp add: required_def split: option.split)

lemma optional_iff: "optional k T v = (get_prop k v = None \<or> (\<exists>x. get_prop k v = Some x \<and> T x))"
  by (simp add: optional_def split: option.split)

lemma get_prop_Nil [simp]: "get_prop k (JObject []) = None"
  by (simp add: get_prop_def)

lemma get_prop_Cons [simp]:
  "get_prop k (JObject ((k', x) # kvs)) = (if k = k' then Some x else get_prop k (JObject kvs))"
  by (simp add: get_prop_def)

lemma ts_object_JObject [simp]: "ts_object (JObject kvs) = distinct (map fst kvs)"
  by (simp add: ts_object_def)

lemma ts_index_JObject [simp]:
  "ts_index T (JObject kvs) = (distinct (map fst kvs) \<and> list_all T (map snd kvs))"
  by (simp add: ts_index_def)

lemma ts_array_JArray [simp]: "ts_array T (JArray xs) = list_all T xs"
  by (simp add: ts_array_def)

section \<open>ScoreType\<close>

text \<open>
  C4. \<open>ScoreType\<close> is \<^verbatim>\<open>'PROBABILITY' | string\<close>: every string is a value of it, the
  recommended \<^verbatim>\<open>"PROBABILITY"\<close> and any other alike, so the type is no fixed enumeration
  (its values are exactly the strings).
\<close>

theorem ScoreType_accepts_every_string:
  "ScoreType (JString s) \<and> ScoreType v = ts_string v"
  by (auto simp: ScoreType_def ts_string_def)

section \<open>The response shapes\<close>

text \<open>
  C10. Every member of \<open>AnalyzeCommentResponse\<close> (\<^verbatim>\<open>attributeScores\<close>, \<^verbatim>\<open>languages\<close>,
  \<^verbatim>\<open>clientToken\<close>) and of \<open>SuggestCommentScoreResponse\<close> (\<^verbatim>\<open>clientToken\<close>) is optional:
  the empty object, in which each of them is absent, is a value of both shapes.
\<close>

theorem responses_all_optional:
  "AnalyzeCommentResponse (JObject []) \<and>
   SuggestCommentScoreResponse (JObject []) \<and>
   get_prop ''attributeScores'' (JObject []) = None \<and>
   get_prop ''languages'' (JObject []) = None \<and>
   get_prop ''clientToken'' (JObject []) = None"
  by (simp add: AnalyzeCommentResponse_def SuggestCommentScoreResponse_def optional_def)

section \<open>Comment\<close>

text \<open>
  C7. In a \<open>Comment\<close>, \<^verbatim>\<open>text\<close> is required and is a string, and \<^verbatim>\<open>type\<close>, when it is
  present, is \<^verbatim>\<open>"PLAIN_TEXT"\<close> or \<^verbatim>\<open>"HTML"\<close> and nothing else; a comment with no
  \<^verbatim>\<open>type\<close>, and one with either of the two values, is a value of the shape.
\<close>

theorem Comment_text_required_type_enumerated:
  "(Comment v \<longrightarrow>
      (\<exists>s. get_prop ''text'' v = Some (JString s)) \<and>
      (get_prop ''type'' v = None \<or>
       get_prop ''type'' v = Some (JString ''PLAIN_TEXT'') \<or>
       get_prop ''type'' v = Some (JString ''HTML''))) \<and>
   Comment (JObject [(''text'', JString s)]) \<and>
   Comment (JObject [(''text'', JString s), (''type'', JString ''PLAIN_TEXT'')]) \<and>
   Comment (JObject [(''text'', JString s), (''type'', JString ''HTML'')])"
  by (auto simp: Comment_def required_iff optional_iff ts_string_iff TextType_def)

theorem Comment_text_required_type_enumerated_witness:
  "Comment (JObject [(''text'', JString ''hello''), (''type'', JString ''HTML'')]) \<and>
   get_prop ''text'' (JObject [(''text'', JString ''hello''), (''type'', JString ''HTML'')])
     = Some (JString ''hello'') \<and>
   get_prop ''type'' (JObject [(''text'', JString ''hello''), (''type'', JString ''HTML'')])
     = Some (JString ''HTML'') \<and>
   \<not> Comment (JObject [(''text'', JString ''hello''), (''type'', JString ''MARKDOWN'')]) \<and>
   \<not> Comment (JObject [(''type'', JString ''HTML'')])"
  using Comment_text_required_type_enumerated
          [of "JObject [(''text'', JString ''hello''), (''type'', JString ''HTML'')]" "''hello''"]
        Comment_text_required_type_enumerated
          [of "JObject [(''text'', JString ''hello''), (''type'', JString ''MARKDOWN'')]"]
        Comment_text_required_type_enumerated
          [of "JObject [(''type'', JString ''HTML'')]"]
  by simp

section \<open>AnalyzeCommentRequest\<close>

text \<open>
  C1. Every \<open>AnalyzeCommentRequest\<close> has \<^verbatim>\<open>comment\<close>, with its \<^verbatim>\<open>text\<close>, and
  \<^verbatim>\<open>requestedAttributes\<close>: they are required. Each other member (\<^verbatim>\<open>context\<close>,
  \<^verbatim>\<open>languages\<close>, \<^verbatim>\<open>doNotStore\<close>, \<^verbatim>\<open>clientToken\<close>, \<^verbatim>\<open>sessionId\<close>, \<^verbatim>\<open>communityId\<close>,
  \<^verbatim>\<open>spanAnnotations\<close>) is optional: the request made of the two required members alone
  is a value of the shape, and each of the seven is absent from it.
\<close>

theorem AnalyzeCommentRequest_required_and_optional:
  "(AnalyzeCommentRequest v \<longrightarrow>
      (\<exists>c s. get_prop ''comment'' v = Some c \<and> get_prop ''text'' c = Some (JString s)) \<and>
      (\<exists>ra. get_prop ''requestedAttributes'' v = Some ra)) \<and>
   (let w = JObject [(''comment'', JObject [(''text'', JString t)]),
                     (''requestedAttributes'', JObject [])]
    in AnalyzeCommentRequest w \<and>
       get_prop ''context'' w = None \<and>
       get_prop ''languages'' w = None \<and>
       get_prop ''doNotStore'' w = None \<and>
       get_prop ''clientToken'' w = None \<and>
       get_prop ''sessionId'' w = None \<and>
       get_prop ''communityId'' w = None \<and>
       get_prop ''spanAnnotations'' w = None)"
proof -
  have req: "AnalyzeCommentRequest v \<longrightarrow>
      (\<exists>c s. get_prop ''comment'' v = Some c \<and> get_prop ''text'' c = Some (JString s)) \<and>
      (\<exists>ra. get_prop ''requestedAttributes'' v = Some ra)"
    by (auto simp: AnalyzeCommentRequest_def Comment_def required_iff ts_string_iff)
  have c: "Comment (JObject [(''text'', JString t)])"
    by (simp add: Comment_def required_iff optional_iff ts_string_iff)
  have opt: "AnalyzeCommentRequest (JObject [(''comment'', JObject [(''text'', JString t)]),
                     (''requestedAttributes'', JObject [])])"
    by (simp add: AnalyzeCommentRequest_def required_iff optional_iff c)
  from req opt show ?thesis by (simp add: Let_def)
qed

text \<open>
  The witness is a request in which every member is present, so the seven optional
  members are admitted as well as omitted.
\<close>

theorem AnalyzeCommentRequest_required_and_optional_witness:
  "AnalyzeCommentRequest full_request \<and>
   get_prop ''comment'' full_request =
     Some (JObject [(''text'', JString ''hello''), (''type'', JString ''PLAIN_TEXT'')]) \<and>
   get_prop ''requestedAttributes'' full_request = Some (JObject [(''TOXICITY'', JObject [])]) \<and>
   get_prop ''context'' full_request \<noteq> None \<and>
   get_prop ''languages'' full_request \<noteq> None \<and>
   get_prop ''doNotStore'' full_request \<noteq> None \<and>
   get_prop ''clientToken'' full_request \<noteq> None \<and>
   get_prop ''sessionId'' full_request \<noteq> None \<and>
   get_prop ''communityId'' full_request \<noteq> None \<and>
   get_prop ''spanAnnotations'' full_request \<noteq> None"
proof -
  have ok: "AnalyzeCommentRequest full_request"
    by (simp add: full_request_def AnalyzeCommentRequest_def Comment_def Context_def
        ContextEntry_def RequestedAttributeConfig_def TextType_def required_def optional_def
        ts_string_def ts_boolean_def)
  from ok AnalyzeCommentRequest_required_and_optional [of full_request]
  show ?thesis by (simp add: full_request_def)
qed

section \<open>RequestedAttributeConfig\<close>

text \<open>
  C8. In \<^verbatim>\<open>requestedAttributes\<close>, the empty configuration \<^verbatim>\<open>{}\<close> is a
  \<open>RequestedAttributeConfig\<close>; it is another value than a configuration with
  \<^verbatim>\<open>scoreType\<close> and \<^verbatim>\<open>scoreThreshold\<close> present (both are absent from it), and the two
  stand under different keys of one mapping in a well-formed \<open>AnalyzeCommentRequest\<close>.
\<close>

theorem empty_config_alongside_full_config:
  "k1 \<noteq> k2 \<Longrightarrow>
   RequestedAttributeConfig (JObject []) \<and>
   RequestedAttributeConfig
     (JObject [(''scoreType'', JString st), (''scoreThreshold'', JNumber th)]) \<and>
   JObject [] \<noteq> JObject [(''scoreType'', JString st), (''scoreThreshold'', JNumber th)] \<and>
   get_prop ''scoreType'' (JObject []) = None \<and>
   get_prop ''scoreThreshold'' (JObject []) = None \<and>
   AnalyzeCommentRequest
     (JObject
        [(''comment'', JObject [(''text'', JString s)]),
         (''requestedAttributes'',
          JObject
            [(k1, JObject []),
             (k2, JObject [(''scoreType'', JString st), (''scoreThreshold'', JNumber th)])])])"
proof -
  assume ne: "k1 \<noteq> k2"
  have e: "RequestedAttributeConfig (JObject [])"
    by (simp add: RequestedAttributeConfig_def optional_def)
  have f: "RequestedAttributeConfig
     (JObject [(''scoreType'', JString st), (''scoreThreshold'', JNumber th)])"
    by (simp add: RequestedAttributeConfig_def optional_def ScoreType_def ts_string_def
        ts_number_def)
  have c: "Comment (JObject [(''text'', JString s)])"
    by (simp add: Comment_def required_def optional_def ts_string_def)
  from ne e f c show ?thesis
    by (simp add: AnalyzeCommentRequest_def required_def optional_def)
qed

theorem empty_config_alongside_full_config_witness:
  "''TOXICITY'' \<noteq> ''INSULT'' \<and>
   RequestedAttributeConfig (JObject []) \<and>
   AnalyzeCommentRequest
     (JObject
        [(''comment'', JObject [(''text'', JString ''hello'')]),
         (''requestedAttributes'',
          JObject
            [(''TOXICITY'', JObject []),
             (''INSULT'',
              JObject [(''scoreType'', JString ''PROBABILITY''),
                       (''scoreThreshold'', JNumber (1 / 2))])])])"
proof -
  have ne: "''TOXICITY'' \<noteq> ''INSULT''" by simp
  from ne empty_config_alongside_full_config
         [OF ne, of "''PROBABILITY''" "1 / 2" "''hello''"]
  show ?thesis by simp
qed

section \<open>SpanScore\<close>

text \<open>
  C6, as the declaration has it. The claim that \<^verbatim>\<open>begin\<close> is at most \<^verbatim>\<open>end\<close> in every
  \<open>SpanScore\<close> does not hold: the interface declares two numbers and relates them in no
  way, so the span from 5 to 0 is a value of the shape.
\<close>

theorem SpanScore_begin_after_end:
  "SpanScore
     (JObject [(''begin'', JNumber 5), (''end'', JNumber 0),
               (''score'', JObject [(''value'', JNumber (1 / 5))])]) \<and>
   get_prop ''begin''
     (JObject [(''begin'', JNumber 5), (''end'', JNumber 0),
               (''score'', JObject [(''value'', JNumber (1 / 5))])]) = Some (JNumber 5) \<and>
   get_prop ''end''
     (JObject [(''begin'', JNumber 5), (''end'', JNumber 0),
               (''score'', JObject [(''value'', JNumber (1 / 5))])]) = Some (JNumber 0) \<and>
   \<not> (5 :: rat) \<le> 0"
  by (simp add: SpanScore_def Score_def required_def optional_def ts_number_def)

text \<open>
  C6, amended. Every \<open>SpanScore\<close> has the members \<^verbatim>\<open>begin\<close> and \<^verbatim>\<open>end\<close>, both numbers,
  and \<^verbatim>\<open>score\<close>, a \<open>Score\<close>; the shape puts no order between \<^verbatim>\<open>begin\<close> and \<^verbatim>\<open>end\<close>:
  any two numbers with any \<open>Score\<close> make a \<open>SpanScore\<close>.
\<close>

theorem SpanScore_members_unordered:
  "(SpanScore v \<longrightarrow>
      (\<exists>b e sc. get_prop ''begin'' v = Some (JNumber b) \<and>
                get_prop ''end'' v = Some (JNumber e) \<and>
                get_prop ''score'' v = Some sc \<and> Score sc)) \<and>
   (Score s \<longrightarrow>
      SpanScore (JObject [(''begin'', JNumber b'), (''end'', JNumber e'), (''score'', s)]))"
  by (auto simp: SpanScore_def required_iff ts_number_iff)

theorem SpanScore_members_unordered_witness:
  "Score (JObject [(''value'', JNumber (1 / 5)), (''type'', JString ''PROBABILITY'')]) \<and>
   SpanScore
     (JObject [(''begin'', JNumber 0), (''end'', JNumber 5),
               (''score'', JObject [(''value'', JNumber (1 / 5)),
                                    (''type'', JString ''PROBABILITY'')])]) \<and>
   SpanScore
     (JObject [(''begin'', JNumber 5), (''end'', JNumber 0),
               (''score'', JObject [(''value'', JNumber (1 / 5)),
                                    (''type'', JString ''PROBABILITY'')])])"
proof -
  have sc: "Score (JObject [(''value'', JNumber (1 / 5)), (''type'', JString ''PROBABILITY'')])"
    by (simp add: Score_def required_def optional_def ts_number_def ScoreType_def)
  from sc
    SpanScore_members_unordered
      [of "JObject [(''begin'', JNumber 0), (''end'', JNumber 5),
               (''score'', JObject [(''value'', JNumber (1 / 5)),
                                    (''type'', JString ''PROBABILITY'')])]"
          "JObject [(''value'', JNumber (1 / 5)), (''type'', JString ''PROBABILITY'')]" 0 5]
    SpanScore_members_unordered
      [of "JObject []"
          "JObject [(''value'', JNumber (1 / 5)), (''type'', JString ''PROBABILITY'')]" 5 0]
  show ?thesis by simp
qed

section \<open>The attributeScores mapping\<close>

text \<open>
  C5. \<^verbatim>\<open>attributeScores\<close> is required in \<open>SuggestCommentScoreRequest\<close> and optional in
  \<open>AnalyzeCommentResponse\<close>, and has one type in both: the values the member takes in a
  request are the values it takes in a response, namely the mappings from attribute name
  to \<open>AttributeScore\<close>.
\<close>

theorem attributeScores_required_same_shape:
  "(SuggestCommentScoreRequest v \<longrightarrow> (\<exists>y. get_prop ''attributeScores'' v = Some y)) \<and>
   (\<exists>q. SuggestCommentScoreRequest q \<and> get_prop ''attributeScores'' q = Some x)
     = ts_index AttributeScore x \<and>
   (\<exists>r. AnalyzeCommentResponse r \<and> get_prop ''attributeScores'' r = Some x)
     = ts_index AttributeScore x \<and>
   AnalyzeCommentResponse (JObject []) \<and>
   get_prop ''attributeScores'' (JObject []) = None"
proof -
  have req: "SuggestCommentScoreRequest v \<longrightarrow> (\<exists>y. get_prop ''attributeScores'' v = Some y)"
    by (auto simp: SuggestCommentScoreRequest_def required_iff)
  have c: "Comment (JObject [(''text'', JString [])])"
    by (simp add: Comment_def required_def optional_def ts_string_def)
  have q_of: "SuggestCommentScoreRequest
                (JObject [(''comment'', JObject [(''text'', JString [])]),
                          (''attributeScores'', x)])"
    if "ts_index AttributeScore x"
    using that c by (simp add: SuggestCommentScoreRequest_def required_def optional_def)
  have r_of: "AnalyzeCommentResponse (JObject [(''attributeScores'', x)])"
    if "ts_index AttributeScore x"
    using that by (simp add: AnalyzeCommentResponse_def optional_def)
  have of_q: "ts_index AttributeScore x"
    if "SuggestCommentScoreRequest q" "get_prop ''attributeScores'' q = Some x" for q
    using that by (simp add: SuggestCommentScoreRequest_def required_def)
  have of_r: "ts_index AttributeScore x"
    if "AnalyzeCommentResponse r" "get_prop ''attributeScores'' r = Some x" for r
    using that by (simp add: AnalyzeCommentResponse_def optional_def)
  have sugg: "(\<exists>q. SuggestCommentScoreRequest q \<and> get_prop ''attributeScores'' q = Some x)
     = ts_index AttributeScore x"
  proof
    assume "\<exists>q. SuggestCommentScoreRequest q \<and> get_prop ''attributeScores'' q = Some x"
    then show "ts_index AttributeScore x" using of_q by blast
  next
    assume ix: "ts_index AttributeScore x"
    have "get_prop ''attributeScores''
            (JObject [(''comment'', JObject [(''text'', JString [])]),
                      (''attributeScores'', x)]) = Some x"
      by simp
    with q_of [OF ix]
    show "\<exists>q. SuggestCommentScoreRequest q \<and> get_prop ''attributeScores'' q = Some x"
      by blast
  qed
  have resp: "(\<exists>r. AnalyzeCommentResponse r \<and> get_prop ''attributeScores'' r = Some x)
     = ts_index AttributeScore x"
  proof
    assume "\<exists>r. AnalyzeCommentResponse r \<and> get_prop ''attributeScores'' r = Some x"
    then show "ts_index AttributeScore x" using of_r by blast
  next
    assume ix: "ts_index AttributeScore x"
    have "get_prop ''attributeScores'' (JObject [(''attributeScores'', x)]) = Some x"
      by simp
    with r_of [OF ix]
    show "\<exists>r. AnalyzeCommentResponse r \<and> get_prop ''attributeScores'' r = Some x"
      by blast
  qed
  have empty: "AnalyzeCommentResponse (JObject [])"
    by (simp add: AnalyzeCommentResponse_def optional_def)
  from req sugg resp empty show ?thesis by simp
qed

theorem attributeScores_required_same_shape_witness:
  "SuggestCommentScoreRequest
     (JObject
        [(''comment'', JObject [(''text'', JString ''hello'')]),
         (''attributeScores'',
          JObject [(''TOXICITY'',
                    JObject [(''summaryScore'', JObject [(''value'', JNumber (83 / 100))])])])]) \<and>
   ts_index AttributeScore
     (JObject [(''TOXICITY'',
                JObject [(''summaryScore'', JObject [(''value'', JNumber (83 / 100))])])]) \<and>
   (\<exists>r. AnalyzeCommentResponse r \<and>
        get_prop ''attributeScores'' r =
          Some (JObject [(''TOXICITY'',
                  JObject [(''summaryScore'', JObject [(''value'', JNumber (83 / 100))])])]))"
proof -
  have sc: "Score (JObject [(''value'', JNumber (83 / 100))])"
    by (simp add: Score_def required_def optional_def ts_number_def)
  have a: "AttributeScore (JObject [(''summaryScore'', JObject [(''value'', JNumber (83 / 100))])])"
    using sc by (simp add: AttributeScore_def optional_def)
  have c: "Comment (JObject [(''text'', JString ''hello'')])"
    by (simp add: Comment_def required_def optional_def ts_string_def)
  have q: "SuggestCommentScoreRequest
     (JObject
        [(''comment'', JObject [(''text'', JString ''hello'')]),
         (''attributeScores'',
          JObject [(''TOXICITY'',
                    JObject [(''summaryScore'', JObject [(''value'', JNumber (83 / 100))])])])])"
    using a c by (simp add: SuggestCommentScoreRequest_def required_def optional_def)
  have g: "get_prop ''attributeScores''
     (JObject
        [(''comment'', JObject [(''text'', JString ''hello'')]),
         (''attributeScores'',
          JObject [(''TOXICITY'',
                    JObject [(''summaryScore'', JObject [(''value'', JNumber (83 / 100))])])])])
     = Some (JObject [(''TOXICITY'',
                JObject [(''summaryScore'', JObject [(''value'', JNumber (83 / 100))])])])"
    by simp
  from q g
    attributeScores_required_same_shape
      [of "JObject
        [(''comment'', JObject [(''text'', JString ''hello'')]),
         (''attributeScores'',
          JObject [(''TOXICITY'',
                    JObject [(''summaryScore'', JObject [(''value'', JNumber (83 / 100))])])])]"
          "JObject [(''TOXICITY'',
                JObject [(''summaryScore'', JObject [(''value'', JNumber (83 / 100))])])]"]
  show ?thesis by blast
qed

section \<open>Absence and order in the shapes\<close>

text \<open>
  What the declarations themselves settle about an omitted \<^verbatim>\<open>summaryScore\<close>: the
  \<open>AttributeScore\<close> without it is a value of the shape, it is another value than the one
  whose \<^verbatim>\<open>summaryScore\<close> is a \<open>Score\<close> of value 0, and \<^verbatim>\<open>null\<close> in its place is no
  value of the shape. How a serializer writes either value is outside \<^verbatim>\<open>src/index.ts\<close>.
\<close>

lemma AttributeScore_summaryScore_absent:
  "AttributeScore (JObject []) \<and>
   get_prop ''summaryScore'' (JObject []) = None \<and>
   AttributeScore (JObject [(''summaryScore'', JObject [(''value'', JNumber 0)])]) \<and>
   JObject [] \<noteq> JObject [(''summaryScore'', JObject [(''value'', JNumber 0)])] \<and>
   \<not> AttributeScore (JObject [(''summaryScore'', JNull)])"
  by (simp add: AttributeScore_def Score_def required_def optional_def ts_number_def
      ts_object_def)

text \<open>
  \<^verbatim>\<open>languages\<close> is \<^verbatim>\<open>string[]\<close> in the request and in the response: an array of
  strings, in which order counts, so \<^verbatim>\<open>["en", "es"]\<close> and \<^verbatim>\<open>["es", "en"]\<close> are two
  values of the member.
\<close>

lemma languages_is_sequence:
  "ts_array ts_string (JArray [JString ''en'', JString ''es'']) \<and>
   ts_array ts_string (JArray [JString ''es'', JString ''en'']) \<and>
   JArray [JString ''en'', JString ''es''] \<noteq> JArray [JString ''es'', JString ''en''] \<and>
   AnalyzeCommentResponse (JObject [(''languages'', JArray [JString ''en'', JString ''es''])]) \<and>
   \<not> AnalyzeCommentResponse (JObject [(''languages'', JString ''en'')])"
  by (simp add: AnalyzeCommentResponse_def optional_def ts_string_def ts_array_def)

end
